theory Spec2Isabelle
  imports Complex_Main "HOL-Library.Sublist" "HOL-Library.Char_ord" "HOL-Library.List_Lexorder"
    "HOL-Library.Product_Lexorder"
begin

section \<open>The air-quality dashboard script (app.py)\<close>

text \<open>
  The script is re-run from top to bottom on every interaction: it loads the table, reads the
  sidebar widgets, filters the table, derives the aggregate tables and hands them to the
  plotting library. The model follows that order. A run is a function of the loaded table
  and of the values the sidebar widgets return.
\<close>

subsection \<open>The table and the filter selection\<close>

text \<open>
  One row of \<^verbatim>\<open>air_quality_data\<close>, restricted to the columns the script names:
  \<^verbatim>\<open>PM2.5\<close>, \<^verbatim>\<open>wd\<close>, \<^verbatim>\<open>station\<close>, \<^verbatim>\<open>timestamp\<close> and \<^verbatim>\<open>Category\<close>. The remaining
  measurement columns are only passed through to the charts.

  A cell of the CSV may be empty, which pandas reads as NaN: \<open>None\<close> here. This holds for
  the measurements and equally for the station and the category label. The timestamp, after
  \<^verbatim>\<open>pd.to_datetime\<close>, is a naive date-time; it is represented by its whole seconds since
  1970-01-01 00:00.
\<close>

record row =
  PM2_5 :: "real option"
  wd :: "string option"
  station :: "string option"
  timestamp :: int
  Category :: "string option"

text \<open>
  What the sidebar returns: the multiselect of stations, the selectbox of categories, the two
  date inputs (a calendar date is the number of its day since 1970-01-01) and the two hour
  sliders. The options of the two selectors are the sentinel and the values of
  \<^verbatim>\<open>unique()\<close>, among which NaN occurs when the column has an empty cell.
\<close>

record selection =
  selected_stations :: "string option list"
  selected_aq_category :: "string option"
  start_date :: int
  end_date :: int
  start_hour :: int
  end_hour :: int

text \<open>\<^verbatim>\<open>aq_categories\<close>, the custom order of the labels (lines 17 to 20).\<close>

definition aq_categories :: "string list" where
  "aq_categories =
     [''Good'', ''Moderate'', ''Unhealthy for Sensitive Groups'',
      ''Unhealthy'', ''Very Unhealthy'', ''Hazardous'']"

subsection \<open>The pandas operations the script calls\<close>

text \<open>\<^verbatim>\<open>Series.unique()\<close>: the distinct values, in the order of their first appearance.\<close>

fun unique :: "'a list \<Rightarrow> 'a list" where
  "unique [] = []"
| "unique (x # xs) = x # unique (removeAll x xs)"

text \<open>\<^verbatim>\<open>Series.isin(values)\<close>, for one cell. A NaN cell is in a list that holds NaN.\<close>

definition isin :: "'a \<Rightarrow> 'a list \<Rightarrow> bool" where
  "isin x vs = (x \<in> set vs)"

text \<open>\<^verbatim>\<open>Series.between(left, right)\<close>, for one cell: both bounds are inclusive by default.\<close>

definition between :: "int \<Rightarrow> int \<Rightarrow> int \<Rightarrow> bool" where
  "between x left right = (left \<le> x \<and> x \<le> right)"

text \<open>\<^verbatim>\<open>.dt.date\<close> and \<^verbatim>\<open>.dt.hour\<close> of a timestamp.\<close>

definition dt_date :: "int \<Rightarrow> int" where
  "dt_date t = t div 86400"

definition dt_hour :: "int \<Rightarrow> int" where
  "dt_hour t = (t mod 86400) div 3600"

subsection \<open>Filtering (lines 38 to 59)\<close>

definition station_choices :: "row list \<Rightarrow> string option list" where
  "station_choices air_quality_data =
     Some ''All Stations'' # unique (map station air_quality_data)"

definition aq_category_choices :: "row list \<Rightarrow> string option list" where
  "aq_category_choices air_quality_data =
     Some ''All Categories'' # unique (map Category air_quality_data)"

text \<open>
  Lines 51 and 52: the sentinel, when it is among the chosen stations, replaces the choice by
  every station of the table (\<^verbatim>\<open>station_choices[1:]\<close>).
\<close>

definition effective_stations :: "row list \<Rightarrow> selection \<Rightarrow> string option list" where
  "effective_stations air_quality_data sel =
     (if Some ''All Stations'' \<in> set (selected_stations sel)
      then tl (station_choices air_quality_data)
      else selected_stations sel)"

text \<open>The list handed to \<^verbatim>\<open>isin\<close> on line 56.\<close>

definition category_values :: "row list \<Rightarrow> selection \<Rightarrow> string option list" where
  "category_values air_quality_data sel =
     (if selected_aq_category sel \<noteq> Some ''All Categories''
      then [selected_aq_category sel]
      else aq_category_choices air_quality_data)"

text \<open>The boolean mask of lines 55 to 58, for one row.\<close>

definition row_mask :: "row list \<Rightarrow> selection \<Rightarrow> row \<Rightarrow> bool" where
  "row_mask air_quality_data sel r =
     (isin (station r) (effective_stations air_quality_data sel) \<and>
      isin (Category r) (category_values air_quality_data sel) \<and>
      between (dt_date (timestamp r)) (start_date sel) (end_date sel) \<and>
      between (dt_hour (timestamp r)) (start_hour sel) (end_hour sel))"

definition filtered_data :: "row list \<Rightarrow> selection \<Rightarrow> row list" where
  "filtered_data air_quality_data sel = filter (row_mask air_quality_data sel) air_quality_data"

subsection \<open>Key metrics (lines 64 to 77)\<close>

text \<open>The cells of a column that are not NaN.\<close>

definition dropna :: "'a option list \<Rightarrow> 'a list" where
  "dropna col = List.map_filter (\<lambda>c. c) col"

text \<open>
  \<^verbatim>\<open>Series.value_counts()\<close>: each distinct value with the number of its occurrences, the
  most frequent first. NaN cells are not counted (\<^verbatim>\<open>dropna=True\<close>, the default).
\<close>

definition value_counts :: "'a option list \<Rightarrow> ('a \<times> nat) list" where
  "value_counts col =
     sort_key (\<lambda>(v, n). - int n)
       (map (\<lambda>v. (v, count_list (dropna col) v)) (unique (dropna col)))"

text \<open>
  \<^verbatim>\<open>Series.reindex(labels, fill_value=...)\<close>: one entry per requested label, in the order
  requested; a label the series does not have gets the fill value, and an entry of the series
  whose label is not requested is dropped.
\<close>

definition reindex :: "('a \<times> 'b) list \<Rightarrow> 'a list \<Rightarrow> 'b \<Rightarrow> ('a \<times> 'b) list" where
  "reindex series labels fill_value =
     map (\<lambda>l. (l, case map_of series l of Some v \<Rightarrow> v | None \<Rightarrow> fill_value)) labels"

definition category_count_summary :: "row list \<Rightarrow> (string \<times> nat) list" where
  "category_count_summary fd = reindex (value_counts (map Category fd)) aq_categories 0"

text \<open>The exceptions a run can end with.\<close>

datatype error = TypeError | ValueError

text \<open>
  \<^verbatim>\<open>sep.join(items)\<close>: the items with the separator between them. An item that is not a
  string, as NaN is, raises TypeError.
\<close>

fun intercalate :: "string \<Rightarrow> string list \<Rightarrow> string" where
  "intercalate sep [] = []"
| "intercalate sep [x] = x"
| "intercalate sep (x # y # ys) = x @ sep @ intercalate sep (y # ys)"

definition join :: "string \<Rightarrow> string option list \<Rightarrow> error + string" where
  "join sep items =
     (if None \<in> set items then Inl TypeError else Inr (intercalate sep (dropna items)))"

text \<open>A cell inside an f-string: NaN is written \<^verbatim>\<open>nan\<close>.\<close>

definition format_value :: "string option \<Rightarrow> string" where
  "format_value c = (case c of Some s \<Rightarrow> s | None \<Rightarrow> ''nan'')"

subsection \<open>Air quality by station (lines 118 to 155)\<close>

text \<open>
  \<^verbatim>\<open>DataFrame.groupby(keys)\<close>: the rows of each distinct key, the keys in ascending order.
  A row with a missing key belongs to no group (\<^verbatim>\<open>dropna=True\<close>, the default); the key
  function returns \<open>None\<close> for it.
\<close>

definition groupby :: "('r \<Rightarrow> 'k::linorder option) \<Rightarrow> 'r list \<Rightarrow> ('k \<times> 'r list) list" where
  "groupby key rows =
     map (\<lambda>k. (k, filter (\<lambda>r. key r = Some k) rows)) (sort (remdups (List.map_filter key rows)))"

text \<open>The aggregation \<^verbatim>\<open>'count'\<close>: the number of cells that are not NaN.\<close>

definition count :: "'a option list \<Rightarrow> nat" where
  "count cells = length (filter (\<lambda>c. c \<noteq> None) cells)"

text \<open>The key of a row for a grouping by two columns: missing when either cell is NaN.\<close>

fun group_key :: "'a option \<Rightarrow> 'b option \<Rightarrow> ('a \<times> 'b) option" where
  "group_key (Some a) (Some b) = Some (a, b)"
| "group_key _ _ = None"

text \<open>
  Lines 120 to 126, \<^verbatim>\<open>pivot_table(index='station', columns='Category', values='PM2.5',
  aggfunc='count', fill_value=0)\<close>: the rows are grouped by station and category, each group
  is aggregated to the count of its PM2.5 cells, and the result is unstacked into one line per
  station and one column per category, both ascending, with 0 where a station has no group of
  a category.
\<close>

definition pivot_counts :: "row list \<Rightarrow> (string \<times> (string \<times> nat) list) list" where
  "pivot_counts fd =
     (let agged = map (\<lambda>(k, g). (k, count (map PM2_5 g)))
                      (groupby (\<lambda>r. group_key (station r) (Category r)) fd);
          index = sort (remdups (map (\<lambda>((s, c), n). s) agged));
          columns = sort (remdups (map (\<lambda>((s, c), n). c) agged))
      in map (\<lambda>s. (s, map (\<lambda>c. (c, case map_of agged (s, c) of Some n \<Rightarrow> n | None \<Rightarrow> 0))
                            columns))
             index)"

text \<open>The sum of all cells of a pivot table.\<close>

definition pivot_total :: "('s \<times> ('c \<times> nat) list) list \<Rightarrow> nat" where
  "pivot_total table = sum_list (map (\<lambda>(s, cells). sum_list (map snd cells)) table)"

text \<open>
  Line 139, \<^verbatim>\<open>groupby(['wd', 'Category']).size().reset_index(name='count')\<close>: one line
  (wd, Category, count) per group. The argument is the table the script calls it on.
\<close>

definition wind_direction_data :: "row list \<Rightarrow> (string \<times> string \<times> nat) list" where
  "wind_direction_data table =
     map (\<lambda>((w, c), g). (w, c, length g))
         (groupby (\<lambda>r. group_key (wd r) (Category r)) table)"

text \<open>
  Line 140: the dictionary \<^verbatim>\<open>{cat: i for i, cat in enumerate(aq_categories)}\<close>, mapped over
  the Category column; a category that is not a key gives NaN.
\<close>

definition Category_Order :: "string \<Rightarrow> nat option" where
  "Category_Order c = map_of (zip aq_categories [0 ..< length aq_categories]) c"

text \<open>
  Line 141, \<^verbatim>\<open>sort_values(by=['Category_Order', 'wd'])\<close>: ascending, the lines whose
  Category_Order is NaN last.
\<close>

definition wind_direction_data_sorted ::
    "(string \<times> string \<times> nat) list \<Rightarrow> (string \<times> string \<times> nat) list" where
  "wind_direction_data_sorted wdd =
     sort_key (\<lambda>(w, c, n). ((case Category_Order c of Some i \<Rightarrow> (0 :: nat, i) | None \<Rightarrow> (1, 0)), w))
       wdd"

text \<open>
  Lines 146 to 153: one trace per category of \<^verbatim>\<open>aq_categories\<close>, with the counts as
  \<^verbatim>\<open>r\<close> and the wind directions as \<^verbatim>\<open>theta\<close> of the bar-polar trace.
\<close>

record trace =
  trace_name :: string
  trace_r :: "nat list"
  trace_theta :: "string list"

definition polar_traces :: "(string \<times> string \<times> nat) list \<Rightarrow> trace list" where
  "polar_traces wdd_sorted =
     map (\<lambda>category.
            let category_data = filter (\<lambda>(w, c, n). c = category) wdd_sorted
            in \<lparr>trace_name = category,
                trace_r = map (\<lambda>(w, c, n). n) category_data,
                trace_theta = map (\<lambda>(w, c, n). w) category_data\<rparr>)
         aq_categories"

subsection \<open>The page (lines 61 to 155)\<close>

text \<open>
  What a run shows, in the order of the calls: text written with \<^verbatim>\<open>st.write\<close>, a metric,
  or a figure handed to \<^verbatim>\<open>st.plotly_chart\<close>. A figure is represented by the data the script
  passes to the plotting library; what the library draws from it is outside the script. The
  monthly means of the time series are floating-point averages computed by
  \<^verbatim>\<open>resample('M').mean()\<close>; the line figure carries the table they are computed from.
\<close>

datatype figure =
    Pie "string list" "nat list"
  | Line "row list" string
  | Scatter "row list" string string
  | Bar "(string \<times> (string \<times> nat) list) list" "string list"
  | Polar "trace list"

datatype element =
    Write string
  | Metric string nat int
  | Plotly_chart figure

text \<open>
  The script catches no exception. A part of the run yields the elements it has shown and,
  when it raised, the exception that ended it; what was shown before stays on the page.
\<close>

type_synonym shown = "element list \<times> error option"

definition and_then :: "shown \<Rightarrow> shown \<Rightarrow> shown" where
  "and_then first rest =
     (case snd first of
        Some e \<Rightarrow> first
      | None \<Rightarrow> (fst first @ fst rest, snd rest))"

text \<open>The selectboxes inside the tabs.\<close>

record chart_choices =
  selected_pollutant :: string
  selected_pollutant_x :: string
  selected_pollutant_y :: string

text \<open>
  Lines 64 to 77. The header of line 66 joins the stations filtered on, before anything of the
  tab is shown.
\<close>

definition tab1 :: "row list \<Rightarrow> selection \<Rightarrow> shown" where
  "tab1 air_quality_data sel =
     (case join '', '' (effective_stations air_quality_data sel) of
        Inl e \<Rightarrow> ([], Some e)
      | Inr stations \<Rightarrow>
          (let fd = filtered_data air_quality_data sel;
               summary = category_count_summary fd
           in ([Write (''**Metrics for '' @ stations @ '' - ''
                       @ format_value (selected_aq_category sel) @ ''**'')]
               @ map (\<lambda>(category, n). Metric category n (int n - int n)) summary
               @ [Plotly_chart (Pie (map fst summary) (map snd summary))],
               None)))"

text \<open>
  Lines 87 to 89 keep the numeric columns and the timestamp of every filtered row, so
  \<^verbatim>\<open>resample_data\<close> has the rows of the filtered table, and \<^verbatim>\<open>resample_data.empty\<close> holds
  exactly when there is no row.
\<close>

definition resample_data :: "row list \<Rightarrow> row list" where
  "resample_data fd = fd"

definition tab2 :: "row list \<Rightarrow> selection \<Rightarrow> chart_choices \<Rightarrow> shown" where
  "tab2 air_quality_data sel ch =
     (let fd = filtered_data air_quality_data sel
      in if resample_data fd \<noteq> []
         then ([Plotly_chart (Line (resample_data fd) (selected_pollutant ch))], None)
         else ([Write ''No data available for the selected filters.''], None))"

definition tab3 :: "row list \<Rightarrow> selection \<Rightarrow> chart_choices \<Rightarrow> shown" where
  "tab3 air_quality_data sel ch =
     ([Plotly_chart (Scatter (filtered_data air_quality_data sel)
                             (selected_pollutant_x ch) (selected_pollutant_y ch))],
      None)"

text \<open>
  Line 127, \<^verbatim>\<open>px.bar(pivot_counts, x=pivot_counts.index, y=aq_categories, ...)\<close>. The
  library reads a list as a list of column references when each of its entries is the name of a
  column of the frame, and refuses two such lists. When every name of \<^verbatim>\<open>y\<close> is a column,
  \<^verbatim>\<open>y\<close> selects these columns. When one is not, the list is taken as a column of values of
  its own, and ValueError is raised when its length differs from that of \<^verbatim>\<open>x\<close>, unless
  \<^verbatim>\<open>x\<close> is empty. So the call raises for a pivot table that lacks the column of one of the
  six labels, except when it has no line or exactly six.
\<close>

definition px_bar :: "(string \<times> (string \<times> nat) list) list \<Rightarrow> string list \<Rightarrow> error + figure" where
  "px_bar data_frame y =
     (let index = map fst data_frame;
          columns = (case data_frame of [] \<Rightarrow> [] | line # _ \<Rightarrow> map fst (snd line));
          wide_x = list_all (\<lambda>s. s \<in> set columns) index;
          wide_y = list_all (\<lambda>c. c \<in> set columns) y
      in if wide_x \<and> wide_y then Inl ValueError
         else if wide_y then Inr (Bar data_frame y)
         else if index \<noteq> [] \<and> length y \<noteq> length index then Inl ValueError
         else Inr (Bar data_frame y))"

text \<open>Lines 118 to 155. The polar chart is built after the bar chart has been shown.\<close>

definition tab4 :: "row list \<Rightarrow> selection \<Rightarrow> shown" where
  "tab4 air_quality_data sel =
     (case px_bar (pivot_counts (filtered_data air_quality_data sel)) aq_categories of
        Inl e \<Rightarrow> ([], Some e)
      | Inr fig_bar \<Rightarrow>
          ([Plotly_chart fig_bar,
            Plotly_chart (Polar (polar_traces
              (wind_direction_data_sorted (wind_direction_data air_quality_data))))],
           None))"

definition page :: "row list \<Rightarrow> selection \<Rightarrow> chart_choices \<Rightarrow> shown" where
  "page air_quality_data sel ch =
     and_then (tab1 air_quality_data sel)
       (and_then (tab2 air_quality_data sel ch)
          (and_then (tab3 air_quality_data sel ch) (tab4 air_quality_data sel)))"

subsection \<open>Auxiliary notions and example tables\<close>

text \<open>
  The number of PM2.5 observations of one station in one category: what a cell of the pivot
  table is shown to hold.
\<close>

definition pm25_cell :: "row list \<Rightarrow> string \<times> string \<Rightarrow> nat" where
  "pm25_cell fd k =
     length (filter (\<lambda>x. group_key (station x) (Category x) = Some k \<and> PM2_5 x \<noteq> None) fd)"

text \<open>
  Three observations of 2013-03-01 (day 15765): at 00:00 and 12:00 in Aotizhongxin, and at
  23:00 in Changping, the last one with an empty PM2.5 cell.
\<close>

definition obs_midnight :: row where
  "obs_midnight = \<lparr>PM2_5 = Some 4, wd = Some ''NNW'', station = Some ''Aotizhongxin'',
                    timestamp = 1362096000, Category = Some ''Good''\<rparr>"

definition obs_noon :: row where
  "obs_noon = \<lparr>PM2_5 = Some 160, wd = Some ''E'', station = Some ''Aotizhongxin'',
                timestamp = 1362139200, Category = Some ''Unhealthy''\<rparr>"

definition obs_late :: row where
  "obs_late = \<lparr>PM2_5 = None, wd = Some ''NE'', station = Some ''Changping'',
                timestamp = 1362178800, Category = Some ''Moderate''\<rparr>"

definition example_table :: "row list" where
  "example_table = [obs_midnight, obs_noon, obs_late]"

text \<open>
  Two more observations of the same day: at 06:00 with an empty Category cell, and at 18:00
  with an empty station cell. Each is added to the example table in a table of its own.
\<close>

definition obs_unlabelled :: row where
  "obs_unlabelled = \<lparr>PM2_5 = Some 30, wd = Some ''S'', station = Some ''Changping'',
                      timestamp = 1362117600, Category = None\<rparr>"

definition obs_unnamed :: row where
  "obs_unnamed = \<lparr>PM2_5 = Some 9, wd = Some ''W'', station = None,
                   timestamp = 1362160800, Category = Some ''Good''\<rparr>"

definition table_unlabelled :: "row list" where
  "table_unlabelled = example_table @ [obs_unlabelled]"

definition table_unnamed :: "row list" where
  "table_unnamed = example_table @ [obs_unnamed]"

text \<open>The selection the widgets return when the user touches nothing.\<close>

definition select_all :: selection where
  "select_all = \<lparr>selected_stations = [Some ''All Stations''],
                  selected_aq_category = Some ''All Categories'',
                  start_date = 15765, end_date = 15765, start_hour = 0, end_hour = 23\<rparr>"

text \<open>One station chosen; no station chosen; the two dates exchanged; the two hours exchanged.\<close>

definition select_aotizhongxin :: selection where
  "select_aotizhongxin = select_all\<lparr>selected_stations := [Some ''Aotizhongxin'']\<rparr>"

definition select_no_station :: selection where
  "select_no_station = select_all\<lparr>selected_stations := []\<rparr>"

definition select_dates_exchanged :: selection where
  "select_dates_exchanged = select_all\<lparr>start_date := 15766, end_date := 15765\<rparr>"

definition select_hours_exchanged :: selection where
  "select_hours_exchanged = select_all\<lparr>start_hour := 23, end_hour := 0\<rparr>"

text \<open>Both hour sliders on the same hour.\<close>

definition select_hour :: "int \<Rightarrow> selection" where
  "select_hour h = select_all\<lparr>start_hour := h, end_hour := h\<rparr>"

definition example_choices :: chart_choices where
  "example_choices = \<lparr>selected_pollutant = ''PM2.5'', selected_pollutant_x = ''PM2.5'',
                       selected_pollutant_y = ''PM10''\<rparr>"

section \<open>Properties\<close>

lemma set_unique [simp]: "set (unique xs) = set xs"
  by (induction xs rule: unique.induct) auto

lemma distinct_unique [simp]: "distinct (unique xs)"
  by (induction xs rule: unique.induct) auto

subsection \<open>The filter\<close>


lemma row_mask_iff:
  "row_mask data sel x \<longleftrightarrow>
     station x \<in> set (effective_stations data sel) \<and>
     Category x \<in> set (category_values data sel) \<and>
     start_date sel \<le> dt_date (timestamp x) \<and> dt_date (timestamp x) \<le> end_date sel \<and>
     start_hour sel \<le> dt_hour (timestamp x) \<and> dt_hour (timestamp x) \<le> end_hour sel"
  by (auto simp: row_mask_def isin_def between_def)

lemma category_values_cases:
  "c \<in> set (category_values data sel) \<Longrightarrow>
     c = selected_aq_category sel \<or> selected_aq_category sel = Some ''All Categories''"
  by (auto simp: category_values_def split: if_splits)

lemma category_values_member:
  assumes "x \<in> set data"
    and "Category x = selected_aq_category sel \<or> selected_aq_category sel = Some ''All Categories''"
  shows "Category x \<in> set (category_values data sel)"
  using assms by (auto simp: category_values_def aq_category_choices_def)

text \<open>
  Claim C1. Whatever the selection, a row of the filtered table is a row of the source table,
  its station is among the stations filtered on (the chosen ones, when the sentinel is not
  chosen), its category is the selected one unless the selection is 'All Categories', its date
  lies between the start and the end date and its hour between the start and the end hour.
\<close>

theorem filtered_data_consistent:
  assumes "x \<in> set (filtered_data data sel)"
  shows "x \<in> set data \<and>
         station x \<in> set (effective_stations data sel) \<and>
         (Some ''All Stations'' \<notin> set (selected_stations sel)
            \<longrightarrow> station x \<in> set (selected_stations sel)) \<and>
         (Category x = selected_aq_category sel \<or> selected_aq_category sel = Some ''All Categories'') \<and>
         start_date sel \<le> dt_date (timestamp x) \<and> dt_date (timestamp x) \<le> end_date sel \<and>
         start_hour sel \<le> dt_hour (timestamp x) \<and> dt_hour (timestamp x) \<le> end_hour sel"
proof -
  from assms have mem: "x \<in> set data" and m: "row_mask data sel x"
    by (simp_all add: filtered_data_def)
  from m have st: "station x \<in> set (effective_stations data sel)"
    and cat: "Category x \<in> set (category_values data sel)"
    and rest: "start_date sel \<le> dt_date (timestamp x)" "dt_date (timestamp x) \<le> end_date sel"
      "start_hour sel \<le> dt_hour (timestamp x)" "dt_hour (timestamp x) \<le> end_hour sel"
    by (simp_all add: row_mask_iff)
  from st have "Some ''All Stations'' \<notin> set (selected_stations sel)
      \<longrightarrow> station x \<in> set (selected_stations sel)"
    by (auto simp: effective_stations_def)
  with mem st category_values_cases [OF cat] rest show ?thesis
    by blast
qed

theorem filtered_data_consistent_witness:
  "obs_noon \<in> set (filtered_data example_table select_aotizhongxin) \<and>
   obs_noon \<in> set example_table \<and>
   station obs_noon \<in> set (selected_stations select_aotizhongxin) \<and>
   start_date select_aotizhongxin \<le> dt_date (timestamp obs_noon) \<and>
   dt_date (timestamp obs_noon) \<le> end_date select_aotizhongxin \<and>
   start_hour select_aotizhongxin \<le> dt_hour (timestamp obs_noon) \<and>
   dt_hour (timestamp obs_noon) \<le> end_hour select_aotizhongxin"
proof -
  have h: "obs_noon \<in> set (filtered_data example_table select_aotizhongxin)"
    by code_simp
  have s: "Some ''All Stations'' \<notin> set (selected_stations select_aotizhongxin)"
    by code_simp
  show ?thesis
    using h s filtered_data_consistent [OF h] by blast
qed



text \<open>
  Claim C3, as amended. For a selection whose start date is not after its end date and whose
  start hour is not greater than its end hour, a row of the table whose date equals the start
  date or the end date, or whose hour equals the start hour or the end hour, is retained
  provided its other attributes satisfy the selection.
\<close>

theorem range_bounds_inclusive:
  assumes "x \<in> set data"
    and "station x \<in> set (effective_stations data sel)"
    and "Category x = selected_aq_category sel \<or> selected_aq_category sel = Some ''All Categories''"
    and "start_date sel \<le> end_date sel" and "start_hour sel \<le> end_hour sel"
    and "dt_date (timestamp x) = start_date sel \<or> dt_date (timestamp x) = end_date sel \<or>
         between (dt_date (timestamp x)) (start_date sel) (end_date sel)"
    and "dt_hour (timestamp x) = start_hour sel \<or> dt_hour (timestamp x) = end_hour sel \<or>
         between (dt_hour (timestamp x)) (start_hour sel) (end_hour sel)"
  shows "x \<in> set (filtered_data data sel)"
proof -
  have cat: "Category x \<in> set (category_values data sel)"
    using assms(1,3) by (rule category_values_member)
  have d: "start_date sel \<le> dt_date (timestamp x) \<and> dt_date (timestamp x) \<le> end_date sel"
    using assms(4,6) by (auto simp: between_def)
  have h: "start_hour sel \<le> dt_hour (timestamp x) \<and> dt_hour (timestamp x) \<le> end_hour sel"
    using assms(5,7) by (auto simp: between_def)
  from assms(1,2) cat d h show ?thesis
    by (simp add: filtered_data_def row_mask_iff)
qed

theorem range_bounds_inclusive_witness:
  "obs_late \<in> set example_table \<and>
   dt_date (timestamp obs_late) = start_date select_all \<and>
   dt_date (timestamp obs_late) = end_date select_all \<and>
   dt_hour (timestamp obs_late) = end_hour select_all \<and>
   obs_midnight \<in> set example_table \<and>
   dt_hour (timestamp obs_midnight) = start_hour select_all \<and>
   obs_late \<in> set (filtered_data example_table select_all) \<and>
   obs_midnight \<in> set (filtered_data example_table select_all)"
proof -
  have m: "obs_late \<in> set example_table" "obs_midnight \<in> set example_table"
    by (simp_all add: example_table_def)
  have st: "station obs_late \<in> set (effective_stations example_table select_all)"
    "station obs_midnight \<in> set (effective_stations example_table select_all)"
    by code_simp+
  have c: "selected_aq_category select_all = Some ''All Categories''"
    by (simp add: select_all_def)
  have o: "start_date select_all \<le> end_date select_all"
    "start_hour select_all \<le> end_hour select_all"
    by (simp_all add: select_all_def)
  have d: "dt_date (timestamp obs_late) = start_date select_all"
    "dt_date (timestamp obs_late) = end_date select_all"
    "dt_date (timestamp obs_midnight) = start_date select_all"
    by (simp_all add: obs_late_def obs_midnight_def select_all_def dt_date_def)
  have h: "dt_hour (timestamp obs_late) = end_hour select_all"
    "dt_hour (timestamp obs_midnight) = start_hour select_all"
    by (simp_all add: obs_late_def obs_midnight_def select_all_def dt_hour_def)
  have "obs_late \<in> set (filtered_data example_table select_all)"
    using m(1) st(1) c o d(1) h(1) by (intro range_bounds_inclusive) simp_all
  moreover have "obs_midnight \<in> set (filtered_data example_table select_all)"
    using m(2) st(2) c o d(3) h(2) by (intro range_bounds_inclusive) simp_all
  ultimately show ?thesis
    using m d h by simp
qed

text \<open>
  The claim as first stated, for every selection, fails when the two dates are exchanged: the
  Changping observation is a row of the table, its station and category satisfy the selection,
  its hour lies in the hour range and its date equals the end date, and the row is dropped.
\<close>

theorem range_bound_exchanged_counterexample:
  "obs_late \<in> set example_table \<and>
   station obs_late \<in> set (effective_stations example_table select_dates_exchanged) \<and>
   selected_aq_category select_dates_exchanged = Some ''All Categories'' \<and>
   between (dt_hour (timestamp obs_late))
     (start_hour select_dates_exchanged) (end_hour select_dates_exchanged) \<and>
   dt_date (timestamp obs_late) = end_date select_dates_exchanged \<and>
   obs_late \<notin> set (filtered_data example_table select_dates_exchanged)"
  by code_simp

text \<open>
  Claim C7, as amended. The filtered table is a subsequence of the source table: its rows are
  rows of the source table, in the same order and no more often. It need not be a proper part
  of it.
\<close>

theorem filtered_data_subseq: "subseq (filtered_data data sel) data"
  by (simp add: filtered_data_def)

text \<open>With nothing deselected the filtered table is the whole source table.\<close>

theorem filtered_data_not_strict_counterexample:
  "\<not> (set (filtered_data example_table select_all) \<subseteq> set example_table \<and>
      filtered_data example_table select_all \<noteq> example_table)"
proof -
  have "filtered_data example_table select_all = example_table"
    by code_simp
  then show ?thesis
    by simp
qed

text \<open>
  Claim C9. When no station is chosen, the filtered table is empty, whatever the category,
  the dates and the hours.
\<close>

theorem no_station_empty:
  "selected_stations sel = [] \<Longrightarrow> filtered_data data sel = []"
  by (simp add: filtered_data_def row_mask_def isin_def effective_stations_def)

theorem no_station_empty_witness:
  "selected_stations select_no_station = [] \<and>
   filtered_data example_table select_no_station = []"
proof -
  have h: "selected_stations select_no_station = []"
    by (simp add: select_no_station_def)
  show ?thesis
    using h no_station_empty [OF h] by simp
qed

text \<open>
  Claim C10. When the start date is after the end date, or the start hour is greater than the
  end hour, the filtered table is empty, whatever the stations and the category.
\<close>

theorem exchanged_range_empty:
  assumes "end_date sel < start_date sel \<or> end_hour sel < start_hour sel"
  shows "filtered_data data sel = []"
proof -
  have "\<not> row_mask data sel x" for x
    using assms by (auto simp: row_mask_iff)
  then show ?thesis
    by (simp add: filtered_data_def)
qed

theorem exchanged_range_empty_witness:
  "end_hour select_hours_exchanged < start_hour select_hours_exchanged \<and>
   filtered_data example_table select_hours_exchanged = [] \<and>
   end_date select_dates_exchanged < start_date select_dates_exchanged \<and>
   filtered_data example_table select_dates_exchanged = []"
proof -
  have h: "end_hour select_hours_exchanged < start_hour select_hours_exchanged"
    by (simp add: select_hours_exchanged_def select_all_def)
  have d: "end_date select_dates_exchanged < start_date select_dates_exchanged"
    by (simp add: select_dates_exchanged_def select_all_def)
  have "filtered_data example_table select_hours_exchanged = []"
    using h by (intro exchanged_range_empty) simp
  moreover have "filtered_data example_table select_dates_exchanged = []"
    using d by (intro exchanged_range_empty) simp
  ultimately show ?thesis
    using h d by simp
qed

subsection \<open>Counting\<close>

lemma length_filter_disjoint:
  "(\<And>x. \<not> (A x \<and> B x)) \<Longrightarrow>
     length (filter A xs) + length (filter B xs) = length (filter (\<lambda>x. A x \<or> B x) xs)"
  by (induction xs) auto

lemma sum_list_length_filter:
  assumes "distinct ks" and "\<And>k k' x. Q k x \<Longrightarrow> Q k' x \<Longrightarrow> k = k'"
  shows "sum_list (map (\<lambda>k. length (filter (Q k) xs)) ks)
         = length (filter (\<lambda>x. \<exists>k \<in> set ks. Q k x) xs)"
  using assms(1)
proof (induction ks)
  case Nil
  then show ?case by simp
next
  case (Cons k ks)
  have disj: "\<not> (Q k x \<and> (\<exists>k' \<in> set ks. Q k' x))" for x
    using Cons.prems assms(2) by auto
  have "sum_list (map (\<lambda>k. length (filter (Q k) xs)) (k # ks))
        = length (filter (Q k) xs) + length (filter (\<lambda>x. \<exists>k \<in> set ks. Q k x) xs)"
    using Cons by simp
  also have "\<dots> = length (filter (\<lambda>x. Q k x \<or> (\<exists>k' \<in> set ks. Q k' x)) xs)"
    using disj by (rule length_filter_disjoint)
  also have "(\<lambda>x. Q k x \<or> (\<exists>k' \<in> set ks. Q k' x)) = (\<lambda>x. \<exists>k' \<in> set (k # ks). Q k' x)"
    by auto
  finally show ?case .
qed

lemma set_map_filter: "set (List.map_filter f xs) = {y. \<exists>x \<in> set xs. f x = Some y}"
  by (induction xs) (auto simp: List.map_filter_simps split: option.splits)

lemma set_dropna: "set (dropna col) = {v. Some v \<in> set col}"
  by (auto simp: dropna_def set_map_filter)

lemma count_list_dropna:
  "count_list (dropna (map f xs)) v = length (filter (\<lambda>x. f x = Some v) xs)"
  by (induction xs) (auto simp: dropna_def List.map_filter_simps split: option.splits)

lemma map_of_insort_key:
  "fst x \<notin> fst ` set xs \<Longrightarrow> map_of (insort_key f x xs) = map_of (x # xs)"
proof (induction xs)
  case Nil
  then show ?case by simp
next
  case (Cons y ys)
  then have ne: "fst y \<noteq> fst x" and ih: "map_of (insort_key f x ys) = map_of (x # ys)"
    by auto
  show ?case
  proof (cases "f x \<le> f y")
    case True
    then show ?thesis by simp
  next
    case False
    then have "map_of (insort_key f x (y # ys)) = (map_of (x # ys))(fst y \<mapsto> snd y)"
      using ih by simp
    also have "\<dots> = map_of (x # y # ys)"
      using ne by (simp add: fun_upd_twist)
    finally show ?thesis .
  qed
qed

lemma map_of_sort_key:
  "distinct (map fst xs) \<Longrightarrow> map_of (sort_key f xs) = map_of xs"
proof (induction xs)
  case Nil
  then show ?case by simp
next
  case (Cons x xs)
  then have "fst x \<notin> fst ` set (sort_key f xs)" by simp
  then have "map_of (sort_key f (x # xs)) = map_of (x # sort_key f xs)"
    by (simp add: map_of_insort_key)
  with Cons show ?case by simp
qed

lemma map_of_value_counts:
  "map_of (value_counts col) l
   = (if Some l \<in> set col then Some (count_list (dropna col) l) else None)"
proof -
  let ?present = "dropna col"
  have "distinct (map fst (map (\<lambda>v. (v, count_list ?present v)) (unique ?present)))"
    by (simp add: comp_def)
  then have "map_of (value_counts col)
      = map_of (map (\<lambda>v. (v, count_list ?present v)) (unique ?present))"
    unfolding value_counts_def by (rule map_of_sort_key)
  then show ?thesis
    by (simp add: map_of_map_restrict restrict_map_def set_dropna)
qed

lemma category_count_summary_eq:
  "category_count_summary fd
   = map (\<lambda>c. (c, length (filter (\<lambda>x. Category x = Some c) fd))) aq_categories"
proof -
  have "(case map_of (value_counts (map Category fd)) c of Some v \<Rightarrow> v | None \<Rightarrow> 0)
        = length (filter (\<lambda>x. Category x = Some c) fd)" for c
    by (auto simp: map_of_value_counts count_list_dropna filter_empty_conv image_iff)
  then show ?thesis
    by (simp add: category_count_summary_def reindex_def)
qed

lemma distinct_aq_categories: "distinct aq_categories"
  by (simp add: aq_categories_def)

lemma category_counts_sum:
  "sum_list (map snd (category_count_summary fd))
   = length (filter (\<lambda>x. Category x \<in> Some ` set aq_categories) fd)"
proof -
  have "sum_list (map snd (category_count_summary fd))
        = sum_list (map (\<lambda>c. length (filter (\<lambda>x. Category x = Some c) fd)) aq_categories)"
    by (simp add: category_count_summary_eq comp_def)
  also have "\<dots> = length (filter (\<lambda>x. \<exists>c \<in> set aq_categories. Category x = Some c) fd)"
    by (rule sum_list_length_filter [OF distinct_aq_categories]) simp
  also have "(\<lambda>x. \<exists>c \<in> set aq_categories. Category x = Some c)
             = (\<lambda>x. Category x \<in> Some ` set aq_categories)"
    by auto
  finally show ?thesis .
qed

lemma group_key_eq_Some: "group_key a b = Some (s, c) \<longleftrightarrow> a = Some s \<and> b = Some c"
  by (cases a; cases b) auto

lemma count_map_filter:
  "count (map f (filter P xs)) = length (filter (\<lambda>x. P x \<and> f x \<noteq> None) xs)"
  by (induction xs) (auto simp: count_def)

lemma agged_eq:
  "map (\<lambda>(k, g). (k, count (map PM2_5 g)))
       (groupby (\<lambda>x. group_key (station x) (Category x)) fd)
   = map (\<lambda>k. (k, pm25_cell fd k))
         (sort (remdups (List.map_filter (\<lambda>x. group_key (station x) (Category x)) fd)))"
  by (simp add: groupby_def comp_def count_map_filter pm25_cell_def)

lemma pivot_cell:
  "(case map_of (map (\<lambda>k. (k, pm25_cell fd k))
       (sort (remdups (List.map_filter (\<lambda>x. group_key (station x) (Category x)) fd)))) k
    of Some n \<Rightarrow> n | None \<Rightarrow> 0)
   = pm25_cell fd k"
proof (cases "\<exists>x \<in> set fd. group_key (station x) (Category x) = Some k")
  case True
  then show ?thesis
    by (auto simp: map_of_map_restrict restrict_map_def set_map_filter)
next
  case False
  then have "pm25_cell fd k = 0"
    by (auto simp: pm25_cell_def filter_empty_conv)
  with False show ?thesis
    by (auto simp: map_of_map_restrict restrict_map_def set_map_filter)
qed

lemma sort_remdups_cong:
  "set xs = set ys \<Longrightarrow> sort (remdups xs) = sort (remdups (ys :: 'a::linorder list))"
  by (simp flip: sorted_list_of_set_sort_remdups)

lemma pivot_counts_eq:
  "pivot_counts fd
   = (let keys = List.map_filter (\<lambda>x. group_key (station x) (Category x)) fd
      in map (\<lambda>s. (s, map (\<lambda>c. (c, pm25_cell fd (s, c))) (sort (remdups (map snd keys)))))
             (sort (remdups (map fst keys))))"
proof -
  let ?keys = "List.map_filter (\<lambda>x. group_key (station x) (Category x)) fd"
  have "sort (remdups (map (\<lambda>((s, c), n). s) (map (\<lambda>k. (k, pm25_cell fd k)) (sort (remdups ?keys)))))
        = sort (remdups (map fst ?keys))"
    by (rule sort_remdups_cong) (simp add: comp_def case_prod_unfold image_image del: set_sort set_remdups, simp)
  moreover have "sort (remdups (map (\<lambda>((s, c), n). c) (map (\<lambda>k. (k, pm25_cell fd k)) (sort (remdups ?keys)))))
        = sort (remdups (map snd ?keys))"
    by (rule sort_remdups_cong) (simp add: comp_def case_prod_unfold image_image del: set_sort set_remdups, simp)
  ultimately show ?thesis
    by (simp only: pivot_counts_def Let_def pivot_cell agged_eq)
qed

lemma pivot_total_eq:
  "pivot_total (pivot_counts fd)
   = length (filter (\<lambda>x. station x \<noteq> None \<and> Category x \<noteq> None \<and> PM2_5 x \<noteq> None) fd)"
proof -
  let ?keys = "List.map_filter (\<lambda>x. group_key (station x) (Category x)) fd"
  let ?cols = "sort (remdups (map snd ?keys))"
  let ?idx = "sort (remdups (map fst ?keys))"
  have cols: "c \<in> set ?cols" if "x \<in> set fd" "Category x = Some c" "station x = Some s" for x c s
  proof -
    from that have "(s, c) \<in> set ?keys"
      by (auto simp: set_map_filter group_key_eq_Some)
    then show ?thesis by force
  qed
  have idx: "s \<in> set ?idx" if "x \<in> set fd" "Category x = Some c" "station x = Some s" for x c s
  proof -
    from that have "(s, c) \<in> set ?keys"
      by (auto simp: set_map_filter group_key_eq_Some)
    then show ?thesis by force
  qed
  have inner: "sum_list (map (\<lambda>c. pm25_cell fd (s, c)) ?cols)
      = length (filter (\<lambda>x. station x = Some s \<and> Category x \<noteq> None \<and> PM2_5 x \<noteq> None) fd)"
    for s
  proof -
    have "sum_list (map (\<lambda>c. length (filter
            (\<lambda>x. Category x = Some c \<and> station x = Some s \<and> PM2_5 x \<noteq> None) fd)) ?cols)
          = length (filter (\<lambda>x. \<exists>c \<in> set ?cols.
              Category x = Some c \<and> station x = Some s \<and> PM2_5 x \<noteq> None) fd)"
      by (rule sum_list_length_filter) auto
    also have "\<dots> = length (filter
        (\<lambda>x. station x = Some s \<and> Category x \<noteq> None \<and> PM2_5 x \<noteq> None) fd)"
    proof (rule arg_cong [where f = length], rule filter_cong [OF refl])
      fix x assume "x \<in> set fd"
      from cols [OF this]
      show "(\<exists>c \<in> set ?cols. Category x = Some c \<and> station x = Some s \<and> PM2_5 x \<noteq> None)
            = (station x = Some s \<and> Category x \<noteq> None \<and> PM2_5 x \<noteq> None)"
        by (cases "Category x") auto
    qed
    finally show ?thesis
      by (simp add: pm25_cell_def group_key_eq_Some conj_commute conj_left_commute
            cong: conj_cong)
  qed
  have "pivot_total (pivot_counts fd)
        = sum_list (map (\<lambda>s. length (filter
            (\<lambda>x. station x = Some s \<and> Category x \<noteq> None \<and> PM2_5 x \<noteq> None) fd)) ?idx)"
    by (simp add: pivot_total_def pivot_counts_eq Let_def comp_def inner)
  also have "\<dots> = length (filter (\<lambda>x. \<exists>s \<in> set ?idx.
      station x = Some s \<and> Category x \<noteq> None \<and> PM2_5 x \<noteq> None) fd)"
    by (rule sum_list_length_filter) auto
  also have "\<dots> = length (filter
      (\<lambda>x. station x \<noteq> None \<and> Category x \<noteq> None \<and> PM2_5 x \<noteq> None) fd)"
  proof (rule arg_cong [where f = length], rule filter_cong [OF refl])
    fix x assume "x \<in> set fd"
    from idx [OF this]
    show "(\<exists>s \<in> set ?idx. station x = Some s \<and> Category x \<noteq> None \<and> PM2_5 x \<noteq> None)
          = (station x \<noteq> None \<and> Category x \<noteq> None \<and> PM2_5 x \<noteq> None)"
      by (cases "station x"; cases "Category x") auto
  qed
  finally show ?thesis .
qed

subsection \<open>The aggregates\<close>

text \<open>
  Claim C4, as amended. Whatever the selection: when every row of the filtered table carries
  one of the six labels, the six counts of the category-count summary sum to the number of
  rows of the filtered table; when every row of the filtered table has a station, a category
  and a PM2.5 value, the cells of the per-station category pivot sum to the number of rows of
  the filtered table.
\<close>

theorem aggregate_counts_sum:
  "((\<forall>x \<in> set (filtered_data data sel). Category x \<in> Some ` set aq_categories) \<longrightarrow>
      sum_list (map snd (category_count_summary (filtered_data data sel)))
      = length (filtered_data data sel)) \<and>
   ((\<forall>x \<in> set (filtered_data data sel).
        station x \<noteq> None \<and> Category x \<noteq> None \<and> PM2_5 x \<noteq> None) \<longrightarrow>
      pivot_total (pivot_counts (filtered_data data sel)) = length (filtered_data data sel))"
  by (simp add: category_counts_sum pivot_total_eq)

theorem aggregate_counts_sum_witness:
  "filtered_data example_table select_aotizhongxin = [obs_midnight, obs_noon] \<and>
   Category obs_midnight \<in> Some ` set aq_categories \<and>
   Category obs_noon \<in> Some ` set aq_categories \<and>
   station obs_midnight \<noteq> None \<and> station obs_noon \<noteq> None \<and>
   PM2_5 obs_midnight \<noteq> None \<and> PM2_5 obs_noon \<noteq> None \<and>
   sum_list (map snd (category_count_summary (filtered_data example_table select_aotizhongxin)))
     = 2 \<and>
   pivot_total (pivot_counts (filtered_data example_table select_aotizhongxin)) = 2"
proof -
  have fd: "filtered_data example_table select_aotizhongxin = [obs_midnight, obs_noon]"
    by code_simp
  have c: "Category obs_midnight \<in> Some ` set aq_categories"
    "Category obs_noon \<in> Some ` set aq_categories"
    by code_simp+
  have p: "station obs_midnight \<noteq> None" "station obs_noon \<noteq> None"
    "Category obs_midnight \<noteq> None" "Category obs_noon \<noteq> None"
    "PM2_5 obs_midnight \<noteq> None" "PM2_5 obs_noon \<noteq> None"
    by (simp_all add: obs_midnight_def obs_noon_def)
  show ?thesis
    using fd c p aggregate_counts_sum [of example_table select_aotizhongxin] by simp
qed

text \<open>
  The claim as first stated fails on a table with empty cells. With nothing deselected the
  filtered table has the four rows of the table with an unlabelled row; the six counts sum to
  three and the pivot cells to two. With both hour sliders on 6 the unlabelled row alone is
  kept: it has a station and a PM2.5 value, and neither the six counts nor the pivot count it.
  With both on 23 the row without a PM2.5 value alone is kept: it is counted under its label,
  and not in the pivot.
\<close>

theorem aggregate_counts_missing_counterexample:
  "length (filtered_data table_unlabelled select_all) = 4 \<and>
   sum_list (map snd (category_count_summary (filtered_data table_unlabelled select_all))) = 3 \<and>
   pivot_total (pivot_counts (filtered_data table_unlabelled select_all)) = 2 \<and>
   filtered_data table_unlabelled (select_hour 6) = [obs_unlabelled] \<and>
   sum_list (map snd (category_count_summary (filtered_data table_unlabelled (select_hour 6))))
     = 0 \<and>
   pivot_total (pivot_counts (filtered_data table_unlabelled (select_hour 6))) = 0 \<and>
   filtered_data table_unlabelled (select_hour 23) = [obs_late] \<and>
   sum_list (map snd (category_count_summary (filtered_data table_unlabelled (select_hour 23))))
     = 1 \<and>
   pivot_total (pivot_counts (filtered_data table_unlabelled (select_hour 23))) = 0"
  by code_simp

text \<open>
  A row with an empty station cell belongs to no group of the pivot either, whatever its
  other cells.
\<close>

lemma pivot_counts_unnamed: "pivot_total (pivot_counts [obs_unnamed]) = 0"
  by code_simp

text \<open>
  Claim C8. The category domain is the six labels from Good to Hazardous; whatever the
  selection, the category-count summary is indexed by exactly these six labels in this order,
  each with the number of filtered rows of that category, which is 0 for a label that no
  filtered row carries.
\<close>

theorem category_count_summary_labels:
  "aq_categories = [''Good'', ''Moderate'', ''Unhealthy for Sensitive Groups'',
                    ''Unhealthy'', ''Very Unhealthy'', ''Hazardous''] \<and>
   map fst (category_count_summary (filtered_data data sel)) = aq_categories \<and>
   map snd (category_count_summary (filtered_data data sel))
     = map (\<lambda>c. length (filter (\<lambda>x. Category x = Some c) (filtered_data data sel)))
           aq_categories \<and>
   (\<forall>c \<in> set aq_categories.
      Some c \<notin> Category ` set (filtered_data data sel) \<longrightarrow>
      map_of (category_count_summary (filtered_data data sel)) c = Some 0)"
proof -
  let ?fd = "filtered_data data sel"
  have "map_of (category_count_summary ?fd) c = Some 0"
    if "c \<in> set aq_categories" and "Some c \<notin> Category ` set ?fd" for c
  proof -
    from that(2) have "filter (\<lambda>x. Category x = Some c) ?fd = []"
      by (auto simp: filter_empty_conv image_iff)
    with that(1) show ?thesis
      by (simp add: category_count_summary_eq map_of_map_restrict restrict_map_def)
  qed
  then show ?thesis
    by (simp add: category_count_summary_eq comp_def) (simp add: aq_categories_def)
qed

theorem category_count_summary_labels_witness:
  "''Hazardous'' \<in> set aq_categories \<and>
   Some ''Hazardous'' \<notin> Category ` set (filtered_data example_table select_all) \<and>
   map_of (category_count_summary (filtered_data example_table select_all)) ''Hazardous''
     = Some 0 \<and>
   map fst (category_count_summary (filtered_data example_table select_all))
     = [''Good'', ''Moderate'', ''Unhealthy for Sensitive Groups'',
        ''Unhealthy'', ''Very Unhealthy'', ''Hazardous'']"
proof -
  have h1: "''Hazardous'' \<in> set aq_categories"
    by (simp add: aq_categories_def)
  have h2: "Some ''Hazardous'' \<notin> Category ` set (filtered_data example_table select_all)"
    by code_simp
  show ?thesis
    using h1 h2 category_count_summary_labels [of example_table select_all] by auto
qed

text \<open>
  Claim C5. The claim is that each count of the polar chart is the number of rows of the
  filtered table with that wind direction and category. The script computes the counts from
  the whole table instead (line 139): with no station chosen the filtered table is empty, the
  fourth tab shows an empty bar chart, and its polar chart still has one observation in each
  of three categories.
\<close>

theorem wind_direction_data_ignores_filter:
  "filtered_data example_table select_no_station = [] \<and>
   tab4 example_table select_no_station
   = ([Plotly_chart (Bar [] aq_categories),
       Plotly_chart (Polar
         [\<lparr>trace_name = ''Good'', trace_r = [1], trace_theta = [''NNW'']\<rparr>,
          \<lparr>trace_name = ''Moderate'', trace_r = [1], trace_theta = [''NE'']\<rparr>,
          \<lparr>trace_name = ''Unhealthy for Sensitive Groups'', trace_r = [], trace_theta = []\<rparr>,
          \<lparr>trace_name = ''Unhealthy'', trace_r = [1], trace_theta = [''E'']\<rparr>,
          \<lparr>trace_name = ''Very Unhealthy'', trace_r = [], trace_theta = []\<rparr>,
          \<lparr>trace_name = ''Hazardous'', trace_r = [], trace_theta = []\<rparr>])],
      None)"
  by code_simp

subsection \<open>The empty result and the exceptions\<close>

lemma tab1_raises:
  "None \<in> set (effective_stations data sel) \<Longrightarrow> tab1 data sel = ([], Some TypeError)"
  by (simp add: tab1_def join_def)

lemma tab1_shown:
  assumes "None \<notin> set (effective_stations data sel)"
  shows "snd (tab1 data sel) = None"
    and "Write ''No data available for the selected filters.'' \<notin> set (fst (tab1 data sel))"
    and "Plotly_chart (Line t p) \<notin> set (fst (tab1 data sel))"
    and "Plotly_chart (Pie (map fst (category_count_summary (filtered_data data sel)))
                           (map snd (category_count_summary (filtered_data data sel))))
         \<in> set (fst (tab1 data sel))"
  using assms by (auto simp: tab1_def join_def Let_def)

lemma tab2_cases:
  "tab2 data sel ch =
     (if filtered_data data sel = []
      then ([Write ''No data available for the selected filters.''], None)
      else ([Plotly_chart (Line (filtered_data data sel) (selected_pollutant ch))], None))"
  by (simp add: tab2_def resample_data_def)

lemma tab4_cases:
  "tab4 data sel =
     (case px_bar (pivot_counts (filtered_data data sel)) aq_categories of
        Inl e \<Rightarrow> ([], Some e)
      | Inr fig_bar \<Rightarrow>
          ([Plotly_chart fig_bar,
            Plotly_chart (Polar (polar_traces
              (wind_direction_data_sorted (wind_direction_data data))))], None))"
  by (simp add: tab4_def)

lemma page_raises:
  "None \<in> set (effective_stations data sel) \<Longrightarrow> page data sel ch = ([], Some TypeError)"
  by (simp add: page_def tab1_raises and_then_def)

lemma page_shown:
  assumes "None \<notin> set (effective_stations data sel)"
  shows "page data sel ch
         = (fst (tab1 data sel) @ fst (tab2 data sel ch) @ fst (tab3 data sel ch)
              @ fst (tab4 data sel),
            snd (tab4 data sel))"
  using tab1_shown(1) [OF assms]
  by (simp add: page_def and_then_def tab2_cases tab3_def)

lemma pivot_counts_Nil: "pivot_counts [] = []"
  by (simp add: pivot_counts_def groupby_def List.map_filter_simps)

lemma px_bar_Nil: "px_bar [] aq_categories = Inr (Bar [] aq_categories)"
  by (simp add: px_bar_def aq_categories_def)

lemma category_count_summary_Nil:
  "map fst (category_count_summary []) = aq_categories"
  "map snd (category_count_summary []) = [0, 0, 0, 0, 0, 0]"
  by (simp_all add: category_count_summary_eq comp_def) (simp add: aq_categories_def)

lemma no_message_in_tab4:
  "Write ''No data available for the selected filters.'' \<notin> set (fst (tab4 data sel))"
  by (simp add: tab4_cases split: sum.splits)

text \<open>
  Claim C6, as amended. For a selection whose filtered table is empty, the page shows the
  message 'No data available for the selected filters.' instead of the monthly time-series
  chart, provided the header of the first tab can be written, that is, no station filtered on
  is an empty cell. The pie chart of the six zero counts, the empty scatter plot and the
  empty bar chart are shown all the same, and the run ends without an exception. This is the
  only condition the script handles: the message is shown for no other reason, a filtered
  table with rows gets its time-series chart, and no exception is caught, so the run ends with
  the TypeError of the header or with the ValueError of the bar chart whenever one is raised.
\<close>

theorem empty_result_message:
  "(filtered_data data sel = [] \<and> None \<notin> set (effective_stations data sel) \<longrightarrow>
      Write ''No data available for the selected filters.'' \<in> set (fst (page data sel ch)) \<and>
      (\<forall>t p. Plotly_chart (Line t p) \<notin> set (fst (page data sel ch))) \<and>
      Plotly_chart (Pie aq_categories [0, 0, 0, 0, 0, 0]) \<in> set (fst (page data sel ch)) \<and>
      Plotly_chart (Scatter [] (selected_pollutant_x ch) (selected_pollutant_y ch))
        \<in> set (fst (page data sel ch)) \<and>
      Plotly_chart (Bar [] aq_categories) \<in> set (fst (page data sel ch)) \<and>
      snd (page data sel ch) = None) \<and>
   (Write ''No data available for the selected filters.'' \<in> set (fst (page data sel ch))
      \<longrightarrow> filtered_data data sel = []) \<and>
   (filtered_data data sel \<noteq> [] \<and> None \<notin> set (effective_stations data sel) \<longrightarrow>
      Plotly_chart (Line (filtered_data data sel) (selected_pollutant ch))
        \<in> set (fst (page data sel ch))) \<and>
   snd (page data sel ch)
     = (if None \<in> set (effective_stations data sel) then Some TypeError
        else case px_bar (pivot_counts (filtered_data data sel)) aq_categories of
               Inl e \<Rightarrow> Some e
             | Inr fig_bar \<Rightarrow> None)"
proof -
  let ?msg = "Write ''No data available for the selected filters.''"
  let ?fd = "filtered_data data sel"
  let ?named = "None \<notin> set (effective_stations data sel)"
  have empty: "?msg \<in> set (fst (page data sel ch)) \<and>
      (\<forall>t p. Plotly_chart (Line t p) \<notin> set (fst (page data sel ch))) \<and>
      Plotly_chart (Pie aq_categories [0, 0, 0, 0, 0, 0]) \<in> set (fst (page data sel ch)) \<and>
      Plotly_chart (Scatter [] (selected_pollutant_x ch) (selected_pollutant_y ch))
        \<in> set (fst (page data sel ch)) \<and>
      Plotly_chart (Bar [] aq_categories) \<in> set (fst (page data sel ch)) \<and>
      snd (page data sel ch) = None"
    if e: "?fd = []" and n: ?named
  proof -
    have t4: "tab4 data sel
        = ([Plotly_chart (Bar [] aq_categories),
            Plotly_chart (Polar (polar_traces
              (wind_direction_data_sorted (wind_direction_data data))))], None)"
      by (simp add: tab4_cases e pivot_counts_Nil px_bar_Nil)
    have pie: "Plotly_chart (Pie aq_categories [0, 0, 0, 0, 0, 0]) \<in> set (fst (tab1 data sel))"
      using tab1_shown(4) [OF n] by (simp add: e category_count_summary_Nil)
    show ?thesis
      using tab1_shown(3) [OF n] pie
      by (simp add: page_shown [OF n] tab2_cases tab3_def t4 e)
  qed
  have only: "?fd = []" if m: "?msg \<in> set (fst (page data sel ch))"
  proof (cases ?named)
    case True
    with m tab1_shown(2) [OF True] no_message_in_tab4 [of data sel] show ?thesis
      by (simp add: page_shown [OF True] tab2_cases tab3_def split: if_splits)
  next
    case False
    with m show ?thesis
      by (simp add: page_raises)
  qed
  have line: "Plotly_chart (Line ?fd (selected_pollutant ch)) \<in> set (fst (page data sel ch))"
    if "?fd \<noteq> []" and n: ?named
    using that by (simp add: page_shown [OF n] tab2_cases)
  have err: "snd (page data sel ch)
     = (if None \<in> set (effective_stations data sel) then Some TypeError
        else case px_bar (pivot_counts ?fd) aq_categories of
               Inl e \<Rightarrow> Some e
             | Inr fig_bar \<Rightarrow> None)"
  proof (cases ?named)
    case True
    then show ?thesis
      by (simp add: page_shown [OF True] tab4_cases split: sum.splits)
  next
    case False
    then show ?thesis
      by (simp add: page_raises)
  qed
  from empty only line err show ?thesis
    by blast
qed

theorem empty_result_message_witness:
  "filtered_data example_table select_no_station = [] \<and>
   None \<notin> set (effective_stations example_table select_no_station) \<and>
   Write ''No data available for the selected filters.''
     \<in> set (fst (page example_table select_no_station example_choices)) \<and>
   Plotly_chart (Bar [] aq_categories)
     \<in> set (fst (page example_table select_no_station example_choices)) \<and>
   snd (page example_table select_no_station example_choices) = None \<and>
   filtered_data example_table select_aotizhongxin \<noteq> [] \<and>
   None \<notin> set (effective_stations example_table select_aotizhongxin) \<and>
   Plotly_chart (Line (filtered_data example_table select_aotizhongxin) ''PM2.5'')
     \<in> set (fst (page example_table select_aotizhongxin example_choices))"
proof -
  have e: "filtered_data example_table select_no_station = []"
    by code_simp
  have n: "None \<notin> set (effective_stations example_table select_no_station)"
    by code_simp
  have f: "filtered_data example_table select_aotizhongxin \<noteq> []"
    by code_simp
  have a: "None \<notin> set (effective_stations example_table select_aotizhongxin)"
    by code_simp
  have p: "selected_pollutant example_choices = ''PM2.5''"
    by (simp add: example_choices_def)
  from e n empty_result_message [of example_table select_no_station example_choices]
  have shown: "Write ''No data available for the selected filters.''
       \<in> set (fst (page example_table select_no_station example_choices)) \<and>
     Plotly_chart (Bar [] aq_categories)
       \<in> set (fst (page example_table select_no_station example_choices)) \<and>
     snd (page example_table select_no_station example_choices) = None"
    by blast
  from f a empty_result_message [of example_table select_aotizhongxin example_choices]
  have "Plotly_chart (Line (filtered_data example_table select_aotizhongxin)
          (selected_pollutant example_choices))
     \<in> set (fst (page example_table select_aotizhongxin example_choices))"
    by blast
  with e n f a shown show ?thesis
    by (simp only: p) blast
qed

text \<open>
  The claim as first stated has the message instead of the derived charts, for every selection
  with an empty result. With no station chosen the filtered table is empty, and the page holds
  the message together with the pie chart of six zero counts and the empty scatter plot. On
  the table with an unnamed station, with the two dates exchanged, the filtered table is empty
  and the run ends at the header with TypeError, before anything is shown.
\<close>

theorem empty_result_charts_counterexample:
  "filtered_data example_table select_no_station = [] \<and>
   Write ''No data available for the selected filters.''
     \<in> set (fst (page example_table select_no_station example_choices)) \<and>
   Plotly_chart (Pie aq_categories [0, 0, 0, 0, 0, 0])
     \<in> set (fst (page example_table select_no_station example_choices)) \<and>
   Plotly_chart (Scatter [] ''PM2.5'' ''PM10'')
     \<in> set (fst (page example_table select_no_station example_choices)) \<and>
   filtered_data table_unnamed select_dates_exchanged = [] \<and>
   page table_unnamed select_dates_exchanged example_choices = ([], Some TypeError)"
  by code_simp

text \<open>
  The two exceptions at work: with nothing deselected, the unnamed station of its table ends
  the run at the header, and the example table, whose pivot has two lines and three of the six
  columns, ends it at the bar chart, after the first three tabs have been shown.
\<close>

lemma exceptions_end_the_run:
  "page table_unnamed select_all example_choices = ([], Some TypeError) \<and>
   px_bar (pivot_counts (filtered_data example_table select_all)) aq_categories
     = Inl ValueError \<and>
   snd (page example_table select_all example_choices) = Some ValueError \<and>
   length (fst (page example_table select_all example_choices)) = 10"
  by code_simp

end
